theory Spec2Isabelle
  imports Main "HOL-Library.Word"
begin

section \<open>The relay service of server.js\<close>

text \<open>
  server.js registers three POST handlers on an express application: \<^verbatim>\<open>/translate\<close>,
  \<^verbatim>\<open>/suggest-reply\<close> and \<^verbatim>\<open>/synthesize-speech\<close>. Each one checks its API key, reads
  the fields of the parsed request body, performs one \<^verbatim>\<open>fetch\<close> and turns the
  outcome into a JSON response; whatever is thrown inside its \<^verbatim>\<open>try\<close> block is
  caught and answered with status 500.

  A handler is modelled as a function of the process environment, of the upstream (a
  function from the outbound request to the outcome of \<^verbatim>\<open>fetch\<close>) and of the parsed
  body \<^verbatim>\<open>req.body\<close>. It returns the response together with the list of outbound
  requests it performed. The \<^verbatim>\<open>console.error\<close> lines have no effect on either and are
  left out.
\<close>

subsection \<open>Strings\<close>

text \<open>
  A JavaScript string is a sequence of UTF-16 code units. \<open>js\<close> gives the string of
  an ASCII literal of the source.
\<close>

type_synonym jsstring = "16 word list"

definition js :: "string \<Rightarrow> jsstring" where
  "js s = map of_char s"

definition quote :: jsstring where
  "quote = [34]"

text \<open>
  \<^verbatim>\<open>String.prototype.trim\<close> removes the white space and line terminators of
  ECMAScript from both ends: TAB, LF, VT, FF, CR, SP, NBSP, U+1680, U+2000 to U+200A,
  U+2028, U+2029, U+202F, U+205F, U+3000 and U+FEFF.
\<close>

definition isWhiteSpace :: "16 word \<Rightarrow> bool" where
  "isWhiteSpace c \<longleftrightarrow>
     c \<in> {9, 10, 11, 12, 13, 32, 160, 5760, 8232, 8233, 8239, 8287, 12288, 65279}
     \<or> (8192 \<le> c \<and> c \<le> 8202)"

definition trim :: "jsstring \<Rightarrow> jsstring" where
  "trim s = rev (dropWhile isWhiteSpace (rev (dropWhile isWhiteSpace s)))"

text \<open>
  \<^verbatim>\<open>s.split('\n')\<close>: the pieces of \<open>s\<close> between the occurrences of LF (code unit
  10), in order; a string without LF, the empty one too, gives one piece.
\<close>

fun split_lines :: "jsstring \<Rightarrow> jsstring list" where
  "split_lines [] = [[]]"
| "split_lines (c # cs) =
     (if c = 10 then [] # split_lines cs
      else (case split_lines cs of
              [] \<Rightarrow> [[c]]
            | l # ls \<Rightarrow> (c # l) # ls))"

subsection \<open>Values\<close>

text \<open>
  The values the handlers meet are \<^verbatim>\<open>undefined\<close> and what \<^verbatim>\<open>JSON.parse\<close> builds. The
  handlers do no arithmetic: they test a number for truth, compare one with 0 and print
  one inside a template, so a number is held as the text \<^verbatim>\<open>String(n)\<close> prints for
  it (\<open>0\<close> for both zeros, \<^verbatim>\<open>Infinity\<close> for a literal beyond the range of a double
  such as \<^verbatim>\<open>1e400\<close>). An object is the list of its own properties in the order of its
  keys; \<^verbatim>\<open>JSON.parse\<close> keeps one value for each key.
\<close>

datatype jsval =
    Undefined
  | Null
  | Bool bool
  | Num jsstring
  | Str jsstring
  | Arr "jsval list"
  | Obj "(jsstring \<times> jsval) list"

text \<open>
  What a \<^verbatim>\<open>catch\<close> clause receives: \<open>Error m\<close> is an error object whose
  \<^verbatim>\<open>message\<close> is \<open>m\<close> (made by \<^verbatim>\<open>new Error(m)\<close>, or by node-fetch when a call or
  the parsing of a body fails); \<open>TypeError\<close> is raised by the engine when a property
  of \<^verbatim>\<open>null\<close> or \<^verbatim>\<open>undefined\<close> is read, when something that is not a function is
  called, or when an object cannot be converted to a string. Its message is the
  engine's own text.
\<close>

datatype thrown = Error jsstring | TypeError

text \<open>\<^verbatim>\<open>!v\<close> is \<open>\<not> truthy v\<close>.\<close>

fun truthy :: "jsval \<Rightarrow> bool" where
  "truthy Undefined = False"
| "truthy Null = False"
| "truthy (Bool t) = t"
| "truthy (Num n) = (n \<noteq> js ''0'' \<and> n \<noteq> js ''NaN'')"
| "truthy (Str s) = (s \<noteq> [])"
| "truthy (Arr xs) = True"
| "truthy (Obj kvs) = True"

text \<open>
  The property names server.js reads. None of them is defined on a built-in
  prototype, so a read finds an own property of an object or nothing.
\<close>

datatype pname =
    p_text | p_sourceLang | p_targetLang | p_language | p_langCode
  | p_error | p_message | p_candidates | p_content | p_parts

fun name :: "pname \<Rightarrow> jsstring" where
  "name p_text = js ''text''"
| "name p_sourceLang = js ''sourceLang''"
| "name p_targetLang = js ''targetLang''"
| "name p_language = js ''language''"
| "name p_langCode = js ''langCode''"
| "name p_error = js ''error''"
| "name p_message = js ''message''"
| "name p_candidates = js ''candidates''"
| "name p_content = js ''content''"
| "name p_parts = js ''parts''"

definition own :: "(jsstring \<times> jsval) list \<Rightarrow> jsstring \<Rightarrow> jsval" where
  "own kvs k = (case map_of kvs k of None \<Rightarrow> Undefined | Some v \<Rightarrow> v)"

text \<open>\<^verbatim>\<open>v.p\<close>, also as one name of a destructuring pattern \<^verbatim>\<open>{ p } = v\<close>.\<close>

fun get :: "jsval \<Rightarrow> pname \<Rightarrow> thrown + jsval" where
  "get Undefined p = Inl TypeError"
| "get Null p = Inl TypeError"
| "get (Obj kvs) p = Inr (own kvs (name p))"
| "get v p = Inr Undefined"

text \<open>\<^verbatim>\<open>v[0]\<close>.\<close>

fun at0 :: "jsval \<Rightarrow> thrown + jsval" where
  "at0 Undefined = Inl TypeError"
| "at0 Null = Inl TypeError"
| "at0 (Str s) = Inr (case s of [] \<Rightarrow> Undefined | c # cs \<Rightarrow> Str [c])"
| "at0 (Arr xs) = Inr (case xs of [] \<Rightarrow> Undefined | x # ys \<Rightarrow> x)"
| "at0 (Obj kvs) = Inr (own kvs (js ''0''))"
| "at0 v = Inr Undefined"

text \<open>A chain of reads such as \<^verbatim>\<open>data.candidates[0].content\<close>, stopping at the first throw.\<close>

datatype accessor = Field pname | Index0

fun path :: "jsval \<Rightarrow> accessor list \<Rightarrow> thrown + jsval" where
  "path v [] = Inr v"
| "path v (Field p # as) = (case get v p of Inl e \<Rightarrow> Inl e | Inr w \<Rightarrow> path w as)"
| "path v (Index0 # as) = (case at0 v of Inl e \<Rightarrow> Inl e | Inr w \<Rightarrow> path w as)"

text \<open>\<^verbatim>\<open>v.length === 0\<close>, for a \<open>v\<close> that is neither \<^verbatim>\<open>null\<close> nor \<^verbatim>\<open>undefined\<close>.\<close>

fun length_is_0 :: "jsval \<Rightarrow> bool" where
  "length_is_0 (Str s) = (s = [])"
| "length_is_0 (Arr xs) = (xs = [])"
| "length_is_0 (Obj kvs) = (own kvs (js ''length'') = Num (js ''0''))"
| "length_is_0 v = False"

text \<open>
  \<^verbatim>\<open>v.includes(' ')\<close>: a string has the method of \<^verbatim>\<open>String.prototype\<close> (is there a
  space in it), an array the one of \<^verbatim>\<open>Array.prototype\<close> (is an element the string of
  one space); on any other value \<^verbatim>\<open>includes\<close> is not a function.
\<close>

fun includes_space :: "jsval \<Rightarrow> thrown + bool" where
  "includes_space (Str s) = Inr (32 \<in> set s)"
| "includes_space (Arr xs) = Inr (Str [32] \<in> set xs)"
| "includes_space v = Inl TypeError"

text \<open>\<^verbatim>\<open>v.trim()\<close>: only a string has the method.\<close>

fun trim_of :: "jsval \<Rightarrow> thrown + jsstring" where
  "trim_of (Str s) = Inr (trim s)"
| "trim_of v = Inl TypeError"

text \<open>
  The conversion to a string that a template literal and \<^verbatim>\<open>new Error\<close> apply. An
  array joins its elements with commas, \<^verbatim>\<open>null\<close> and \<^verbatim>\<open>undefined\<close> elements as
  empty strings. An object prints as \<^verbatim>\<open>[object Object]\<close>, unless it has an own
  property \<^verbatim>\<open>toString\<close>: a parsed value is never a function, so the conversion
  throws.
\<close>

fun join_strs :: "(thrown + jsstring) list \<Rightarrow> thrown + jsstring" where
  "join_strs [] = Inr []"
| "join_strs [x] = x"
| "join_strs (x # y # ys) =
     (case x of
        Inl e \<Rightarrow> Inl e
      | Inr s \<Rightarrow> (case join_strs (y # ys) of
                   Inl e \<Rightarrow> Inl e
                 | Inr r \<Rightarrow> Inr (s @ js '','' @ r)))"

fun toString :: "jsval \<Rightarrow> thrown + jsstring" where
  "toString Undefined = Inr (js ''undefined'')"
| "toString Null = Inr (js ''null'')"
| "toString (Bool t) = Inr (if t then js ''true'' else js ''false'')"
| "toString (Num n) = Inr n"
| "toString (Str s) = Inr s"
| "toString (Arr xs) =
     join_strs (map (\<lambda>x. if x = Undefined \<or> x = Null then Inr [] else toString x) xs)"
| "toString (Obj kvs) =
     (if map_of kvs (js ''toString'') \<noteq> None then Inl TypeError
      else Inr (js ''[object Object]''))"

text \<open>A template literal: literal pieces and substitutions, converted from left to right.\<close>

datatype piece = Lit jsstring | Sub jsval

fun template :: "piece list \<Rightarrow> thrown + jsstring" where
  "template [] = Inr []"
| "template (Lit s # ps) = (case template ps of Inl e \<Rightarrow> Inl e | Inr r \<Rightarrow> Inr (s @ r))"
| "template (Sub v # ps) =
     (case toString v of
        Inl e \<Rightarrow> Inl e
      | Inr s \<Rightarrow> (case template ps of Inl e \<Rightarrow> Inl e | Inr r \<Rightarrow> Inr (s @ r)))"

text \<open>
  The value thrown by \<^verbatim>\<open>throw new Error(m)\<close>: the message is empty when \<open>m\<close> is
  \<^verbatim>\<open>undefined\<close>, the conversion of \<open>m\<close> otherwise; a conversion that throws
  is what is thrown.
\<close>

definition new_Error :: "jsval \<Rightarrow> thrown" where
  "new_Error m =
     (if m = Undefined then Error []
      else (case toString m of Inl e \<Rightarrow> e | Inr s \<Rightarrow> Error s))"

text \<open>
  \<^verbatim>\<open>JSON.stringify(v)\<close>, which \<^verbatim>\<open>res.json(v)\<close> sends, given as the value its text
  denotes. A number that is not finite is written \<^verbatim>\<open>null\<close>; so is an \<^verbatim>\<open>undefined\<close>
  element of an array; a property whose value is \<^verbatim>\<open>undefined\<close> is left out. Strings,
  booleans, \<^verbatim>\<open>null\<close> and finite numbers are written as they are, and the properties of
  an object in the order of its keys.
\<close>

definition nonfinite :: "jsstring \<Rightarrow> bool" where
  "nonfinite n \<longleftrightarrow> n = js ''Infinity'' \<or> n = js ''-Infinity'' \<or> n = js ''NaN''"

fun stringify :: "jsval \<Rightarrow> jsval" where
  "stringify (Num n) = (if nonfinite n then Null else Num n)"
| "stringify (Arr xs) = Arr (map (\<lambda>x. if x = Undefined then Null else stringify x) xs)"
| "stringify (Obj kvs) =
     Obj (map (\<lambda>kv. (fst kv, stringify (snd kv))) (filter (\<lambda>kv. snd kv \<noteq> Undefined) kvs))"
| "stringify v = v"

subsection \<open>Configuration, outbound calls and responses\<close>

text \<open>
  \<^verbatim>\<open>process.env\<close> holds a string or nothing under each name. The two keys are set
  once: \<^verbatim>\<open>process.env.K ? process.env.K.trim() : null\<close>.
\<close>

record process_env =
  env_GEMINI_API_KEY :: "jsstring option"
  env_TTS_API_KEY :: "jsstring option"

definition load_key :: "jsstring option \<Rightarrow> jsval" where
  "load_key v = (case v of None \<Rightarrow> Null | Some s \<Rightarrow> if s = [] then Null else Str (trim s))"

definition GEMINI_API_KEY :: "process_env \<Rightarrow> jsval" where
  "GEMINI_API_KEY env = load_key (env_GEMINI_API_KEY env)"

definition TTS_API_KEY :: "process_env \<Rightarrow> jsval" where
  "TTS_API_KEY env = load_key (env_TTS_API_KEY env)"

text \<open>
  The argument of \<^verbatim>\<open>fetch\<close>: the URL, the method, the headers and the value whose
  \<^verbatim>\<open>JSON.stringify\<close> text is the body.
\<close>

record request =
  rq_url :: jsstring
  rq_method :: jsstring
  rq_headers :: "(jsstring \<times> jsstring) list"
  rq_body :: jsval

text \<open>
  The outcome of \<^verbatim>\<open>await fetch(...)\<close>: it throws, or gives a response with its
  \<^verbatim>\<open>ok\<close> flag, its \<^verbatim>\<open>statusText\<close> and the outcome of \<^verbatim>\<open>await response.json()\<close>,
  which throws when the body is not JSON.
\<close>

record response =
  ok :: bool
  statusText :: jsstring
  json :: "thrown + jsval"

datatype fetch_result = Rejected thrown | Resolved response

text \<open>
  The bodies the handlers send with \<^verbatim>\<open>res.json\<close>: \<^verbatim>\<open>{error}\<close>,
  \<^verbatim>\<open>{error, details: error.message}\<close> for the caught value \<^verbatim>\<open>error\<close>,
  \<^verbatim>\<open>{translation}\<close>, \<^verbatim>\<open>{suggestions}\<close>, and \<open>Payload w\<close> for a body whose text
  denotes the value \<open>w\<close>. The strings of the first four are written as they are.
\<close>

datatype body =
    ErrorOnly jsstring
  | ErrorDetails jsstring thrown
  | Translation jsstring
  | Suggestions "jsstring list"
  | Payload jsval

record reply =
  status :: nat
  body :: body

definition respond :: "nat \<Rightarrow> body \<Rightarrow> reply" where
  "respond s b = \<lparr>status = s, body = b\<rparr>"

text \<open>
  How the part of a \<^verbatim>\<open>try\<close> block before \<^verbatim>\<open>fetch\<close> ends: it throws, it returns a
  response, or it reaches the call.
\<close>

datatype before_fetch = Threw thrown | Replied reply | Call request

definition post_json :: "jsstring \<Rightarrow> jsval \<Rightarrow> request" where
  "post_json u v =
     \<lparr>rq_url = u, rq_method = js ''POST'',
      rq_headers = [(js ''Content-Type'', js ''application/json'')], rq_body = v\<rparr>"

definition gemini_endpoint :: jsstring where
  "gemini_endpoint = js ''https://generativelanguage.googleapis.com/v1beta/models/gemini-1.5-flash-latest:generateContent?key=''"

definition gemini_url :: "jsval \<Rightarrow> thrown + jsstring" where
  "gemini_url key = template [Lit gemini_endpoint, Sub key]"

text \<open>\<^verbatim>\<open>{ contents: [{ parts: [{ text: prompt }] }] }\<close>\<close>

definition gemini_body :: "jsstring \<Rightarrow> jsval" where
  "gemini_body prompt =
     Obj [(js ''contents'', Arr [Obj [(js ''parts'', Arr [Obj [(js ''text'', Str prompt)]])]])]"

definition gemini_call :: "jsval \<Rightarrow> jsstring \<Rightarrow> before_fetch" where
  "gemini_call key prompt =
     (case gemini_url key of
        Inl e \<Rightarrow> Threw e
      | Inr apiUrl \<Rightarrow> Call (post_json apiUrl (gemini_body prompt)))"

subsection \<open>/translate\<close>

definition single_word_prompt :: "jsval \<Rightarrow> jsval \<Rightarrow> jsval \<Rightarrow> piece list" where
  "single_word_prompt text sourceLang targetLang =
     [Lit (js ''Translate the word '' @ quote), Sub text, Lit (quote @ js '' from ''),
      Sub sourceLang, Lit (js '' to ''), Sub targetLang,
      Lit (js ''. Provide only the single translated word.'')]"

definition multi_word_prompt :: "jsval \<Rightarrow> jsval \<Rightarrow> jsval \<Rightarrow> piece list" where
  "multi_word_prompt text sourceLang targetLang =
     [Lit (js ''Translate the following ''), Sub sourceLang, Lit (js '' text to ''),
      Sub targetLang,
      Lit (js ''. Provide ONLY the translated text. Text: '' @ quote), Sub text, Lit quote]"

definition translate_prompt :: "jsval \<Rightarrow> jsval \<Rightarrow> jsval \<Rightarrow> thrown + jsstring" where
  "translate_prompt text sourceLang targetLang =
     (case includes_space text of
        Inl e \<Rightarrow> Inl e
      | Inr hasSpace \<Rightarrow>
          (let isSingleWord = \<not> hasSpace
           in if isSingleWord then template (single_word_prompt text sourceLang targetLang)
              else template (multi_word_prompt text sourceLang targetLang)))"

definition translate_request :: "jsval \<Rightarrow> jsval \<Rightarrow> before_fetch" where
  "translate_request key req_body =
     (case get req_body p_text of
        Inl e \<Rightarrow> Threw e
      | Inr text \<Rightarrow>
     (case get req_body p_sourceLang of
        Inl e \<Rightarrow> Threw e
      | Inr sourceLang \<Rightarrow>
     (case get req_body p_targetLang of
        Inl e \<Rightarrow> Threw e
      | Inr targetLang \<Rightarrow>
          if \<not> truthy text \<or> \<not> truthy sourceLang \<or> \<not> truthy targetLang
          then Replied (respond 400 (ErrorOnly (js ''Missing required fields'')))
          else (case translate_prompt text sourceLang targetLang of
                  Inl e \<Rightarrow> Threw e
                | Inr prompt \<Rightarrow> gemini_call key prompt))))"

definition translate_response :: "fetch_result \<Rightarrow> thrown + reply" where
  "translate_response fr =
     (case fr of
        Rejected e \<Rightarrow> Inl e
      | Resolved response \<Rightarrow>
     (case json response of
        Inl e \<Rightarrow> Inl e
      | Inr data \<Rightarrow>
          if \<not> ok response
          then (case get data p_error of
                  Inl e \<Rightarrow> Inl e
                | Inr err \<Rightarrow>
                    if truthy err
                    then (case get err p_message of
                            Inl e \<Rightarrow> Inl e
                          | Inr errorMessage \<Rightarrow> Inl (new_Error errorMessage))
                    else Inl (Error (js ''API request failed: '' @ statusText response)))
          else (case get data p_candidates of
                  Inl e \<Rightarrow> Inl e
                | Inr candidates \<Rightarrow>
                    if \<not> truthy candidates \<or> length_is_0 candidates
                    then Inl (Error (js ''No translation candidate found in the API response.''))
                    else (case path data [Field p_candidates, Index0, Field p_content,
                                          Field p_parts, Index0, Field p_text] of
                            Inl e \<Rightarrow> Inl e
                          | Inr translatedText \<Rightarrow>
                              (case trim_of translatedText of
                                 Inl e \<Rightarrow> Inl e
                               | Inr t \<Rightarrow> Inr (respond 200 (Translation t)))))))"

definition translate_catch :: "thrown \<Rightarrow> reply" where
  "translate_catch error = respond 500 (ErrorDetails (js ''Failed to translate text'') error)"

definition translate :: "process_env \<Rightarrow> (request \<Rightarrow> fetch_result) \<Rightarrow> jsval \<Rightarrow> reply \<times> request list" where
  "translate env upstream req_body =
     (if \<not> truthy (GEMINI_API_KEY env)
      then (respond 500 (ErrorOnly (js ''Gemini API key is not configured on the server.'')), [])
      else (case translate_request (GEMINI_API_KEY env) req_body of
              Threw e \<Rightarrow> (translate_catch e, [])
            | Replied r \<Rightarrow> (r, [])
            | Call rq \<Rightarrow>
                (case translate_response (upstream rq) of
                   Inl e \<Rightarrow> (translate_catch e, [rq])
                 | Inr r \<Rightarrow> (r, [rq]))))"

subsection \<open>/suggest-reply\<close>

definition suggest_prompt :: "jsval \<Rightarrow> jsval \<Rightarrow> piece list" where
  "suggest_prompt text language =
     [Lit (js ''I received a message in ''), Sub language,
      Lit (js '' that says: '' @ quote), Sub text,
      Lit (quote @ js ''. Suggest three short, common, and natural-sounding replies in ''),
      Sub language,
      Lit (js ''. Provide ONLY the three replies, each on a new line. Do not add numbers, bullets, or any extra text.'')]"

definition suggest_request :: "jsval \<Rightarrow> jsval \<Rightarrow> before_fetch" where
  "suggest_request key req_body =
     (case get req_body p_text of
        Inl e \<Rightarrow> Threw e
      | Inr text \<Rightarrow>
     (case get req_body p_language of
        Inl e \<Rightarrow> Threw e
      | Inr language \<Rightarrow>
          if \<not> truthy text \<or> \<not> truthy language
          then Replied (respond 400 (ErrorOnly (js ''Missing required fields'')))
          else (case template (suggest_prompt text language) of
                  Inl e \<Rightarrow> Threw e
                | Inr prompt \<Rightarrow> gemini_call key prompt)))"

definition suggest_response :: "fetch_result \<Rightarrow> thrown + reply" where
  "suggest_response fr =
     (case fr of
        Rejected e \<Rightarrow> Inl e
      | Resolved response \<Rightarrow>
          if \<not> ok response then Inl (Error (js ''API request failed''))
          else (case json response of
                  Inl e \<Rightarrow> Inl e
                | Inr data \<Rightarrow>
                    (case path data [Field p_candidates, Index0, Field p_content,
                                     Field p_parts, Index0, Field p_text] of
                       Inl e \<Rightarrow> Inl e
                     | Inr suggestionsText \<Rightarrow>
                         (case trim_of suggestionsText of
                            Inl e \<Rightarrow> Inl e
                          | Inr trimmed \<Rightarrow>
                              (let suggestions =
                                     filter (\<lambda>line. trim line \<noteq> []) (split_lines trimmed)
                               in Inr (respond 200 (Suggestions suggestions)))))))"

definition suggest_catch :: "thrown \<Rightarrow> reply" where
  "suggest_catch error = respond 500 (ErrorOnly (js ''Failed to generate suggestions''))"

definition suggest_reply :: "process_env \<Rightarrow> (request \<Rightarrow> fetch_result) \<Rightarrow> jsval \<Rightarrow> reply \<times> request list" where
  "suggest_reply env upstream req_body =
     (if \<not> truthy (GEMINI_API_KEY env)
      then (respond 500 (ErrorOnly (js ''Gemini API key is not configured on the server.'')), [])
      else (case suggest_request (GEMINI_API_KEY env) req_body of
              Threw e \<Rightarrow> (suggest_catch e, [])
            | Replied r \<Rightarrow> (r, [])
            | Call rq \<Rightarrow>
                (case suggest_response (upstream rq) of
                   Inl e \<Rightarrow> (suggest_catch e, [rq])
                 | Inr r \<Rightarrow> (r, [rq]))))"

subsection \<open>/synthesize-speech\<close>

definition tts_endpoint :: jsstring where
  "tts_endpoint = js ''https://texttospeech.googleapis.com/v1/text:synthesize?key=''"

definition tts_url :: "jsval \<Rightarrow> thrown + jsstring" where
  "tts_url key = template [Lit tts_endpoint, Sub key]"

definition requestBody :: "jsval \<Rightarrow> jsval \<Rightarrow> jsval" where
  "requestBody text langCode =
     Obj [(js ''input'', Obj [(js ''text'', text)]),
          (js ''voice'', Obj [(js ''languageCode'', langCode),
                              (js ''ssmlGender'', Str (js ''NEUTRAL''))]),
          (js ''audioConfig'', Obj [(js ''audioEncoding'', Str (js ''MP3''))])]"

definition synthesize_request :: "jsval \<Rightarrow> jsval \<Rightarrow> before_fetch" where
  "synthesize_request key req_body =
     (case get req_body p_text of
        Inl e \<Rightarrow> Threw e
      | Inr text \<Rightarrow>
     (case get req_body p_langCode of
        Inl e \<Rightarrow> Threw e
      | Inr langCode \<Rightarrow>
          if \<not> truthy text \<or> \<not> truthy langCode
          then Replied (respond 400 (ErrorOnly (js ''Missing text or language code'')))
          else (case tts_url key of
                  Inl e \<Rightarrow> Threw e
                | Inr ttsApiUrl \<Rightarrow> Call (post_json ttsApiUrl (requestBody text langCode)))))"

definition synthesize_response :: "fetch_result \<Rightarrow> thrown + reply" where
  "synthesize_response fr =
     (case fr of
        Rejected e \<Rightarrow> Inl e
      | Resolved response \<Rightarrow>
     (case json response of
        Inl e \<Rightarrow> Inl e
      | Inr data \<Rightarrow>
          if \<not> ok response
          then (case get data p_error of
                  Inl e \<Rightarrow> Inl e
                | Inr err \<Rightarrow>
                    if truthy err
                    then (case get err p_message of
                            Inl e \<Rightarrow> Inl e
                          | Inr errorMessage \<Rightarrow> Inl (new_Error errorMessage))
                    else Inl (Error (js ''TTS API request failed: '' @ statusText response)))
          else Inr (respond 200 (Payload (stringify data)))))"

definition synthesize_catch :: "thrown \<Rightarrow> reply" where
  "synthesize_catch error = respond 500 (ErrorDetails (js ''Failed to synthesize speech'') error)"

definition synthesize_speech :: "process_env \<Rightarrow> (request \<Rightarrow> fetch_result) \<Rightarrow> jsval \<Rightarrow> reply \<times> request list" where
  "synthesize_speech env upstream req_body =
     (if \<not> truthy (TTS_API_KEY env)
      then (respond 500 (ErrorOnly (js ''TTS API key is not configured on the server.'')), [])
      else (case synthesize_request (TTS_API_KEY env) req_body of
              Threw e \<Rightarrow> (synthesize_catch e, [])
            | Replied r \<Rightarrow> (r, [])
            | Call rq \<Rightarrow>
                (case synthesize_response (upstream rq) of
                   Inl e \<Rightarrow> (synthesize_catch e, [rq])
                 | Inr r \<Rightarrow> (r, [rq]))))"

subsection \<open>Conditions on a request\<close>

text \<open>
  \<open>readable b\<close>: the fields of the body can be read (express hands the handler an
  object; on \<^verbatim>\<open>null\<close> and \<^verbatim>\<open>undefined\<close> the destructuring throws).
  \<open>has b p\<close>: the body carries the field \<open>p\<close> with a value that \<^verbatim>\<open>!\<close> does not
  reject, so not \<^verbatim>\<open>undefined\<close>, \<^verbatim>\<open>null\<close>, \<^verbatim>\<open>false\<close>, \<^verbatim>\<open>0\<close> or the empty string.
\<close>

definition readable :: "jsval \<Rightarrow> bool" where
  "readable v \<longleftrightarrow> v \<noteq> Undefined \<and> v \<noteq> Null"

definition has :: "jsval \<Rightarrow> pname \<Rightarrow> bool" where
  "has b p = (case get b p of Inl e \<Rightarrow> False | Inr v \<Rightarrow> truthy v)"


subsection \<open>Lines\<close>

text \<open>
  The sentence of the specification about the suggestions, taken by its words: the
  returned text split on line breaks, the blank lines discarded. It is compared with
  what \<open>suggest_response\<close> computes.
\<close>

definition spec_suggestions :: "jsstring \<Rightarrow> jsstring list" where
  "spec_suggestions t = filter (\<lambda>line. trim line \<noteq> []) (split_lines t)"

text \<open>The lines put together again, with one LF between two of them.\<close>

fun join_lines :: "jsstring list \<Rightarrow> jsstring" where
  "join_lines [] = []"
| "join_lines [l] = l"
| "join_lines (l # m # ls) = l @ [10] @ join_lines (m # ls)"

subsection \<open>Example environments, upstreams and bodies\<close>

text \<open>
  \<open>stub r\<close> is an upstream that answers every call with \<open>r\<close>;
  \<open>gemini_answer t\<close> is a payload with one candidate whose text is \<open>t\<close>;
  \<open>unparsable st\<close> is a response with status text \<open>st\<close> that is not \<^verbatim>\<open>ok\<close> and
  whose body is not JSON, so that \<^verbatim>\<open>response.json()\<close> throws node-fetch's error.
\<close>

definition stub :: "fetch_result \<Rightarrow> request \<Rightarrow> fetch_result" where
  "stub r rq = r"

definition no_keys :: process_env where
  "no_keys = \<lparr>env_GEMINI_API_KEY = None, env_TTS_API_KEY = None\<rparr>"

definition both_keys :: process_env where
  "both_keys = \<lparr>env_GEMINI_API_KEY = Some (js ''G-KEY''), env_TTS_API_KEY = Some (js ''T-KEY'')\<rparr>"

definition succeeded :: "jsval \<Rightarrow> fetch_result" where
  "succeeded d = Resolved \<lparr>ok = True, statusText = js ''OK'', json = Inr d\<rparr>"

definition failed :: "jsstring \<Rightarrow> jsval \<Rightarrow> fetch_result" where
  "failed st d = Resolved \<lparr>ok = False, statusText = st, json = Inr d\<rparr>"



definition gemini_answer :: "jsstring \<Rightarrow> jsval" where
  "gemini_answer t =
     Obj [(js ''candidates'',
           Arr [Obj [(js ''content'', Obj [(js ''parts'', Arr [Obj [(js ''text'', Str t)]])])]])]"

definition quota_exceeded :: jsval where
  "quota_exceeded = Obj [(js ''error'', Obj [(js ''message'', Str (js ''quota exceeded''))])]"

definition translate_body :: "jsstring \<Rightarrow> jsstring \<Rightarrow> jsstring \<Rightarrow> jsval" where
  "translate_body t s d =
     Obj [(js ''text'', Str t), (js ''sourceLang'', Str s), (js ''targetLang'', Str d)]"

definition suggest_body :: "jsstring \<Rightarrow> jsstring \<Rightarrow> jsval" where
  "suggest_body t l = Obj [(js ''text'', Str t), (js ''language'', Str l)]"


section \<open>Properties\<close>

subsection \<open>Reading the body and the keys\<close>

lemma get_readable: "readable v \<Longrightarrow> \<exists>w. get v p = Inr w"
  by (cases v) (simp_all add: readable_def)

lemma has_iff: "has b p \<longleftrightarrow> (\<exists>v. get b p = Inr v \<and> truthy v)"
  by (simp add: has_def split: sum.splits)

lemma truthy_load_key: "truthy (load_key v) \<Longrightarrow> \<exists>k. load_key v = Str k \<and> k \<noteq> []"
  by (auto simp: load_key_def split: option.splits if_splits)

lemma load_key_None: "\<not> truthy (load_key None)"
  by (simp add: load_key_def)

lemma gemini_call_Str:
  "gemini_call (Str k) prompt = Call (post_json (gemini_endpoint @ k) (gemini_body prompt))"
  by (simp add: gemini_call_def gemini_url_def)

lemma translate_missing:
  assumes "truthy (GEMINI_API_KEY env)" "readable b"
    "\<not> (has b p_text \<and> has b p_sourceLang \<and> has b p_targetLang)"
  shows "translate env upstream b = (respond 400 (ErrorOnly (js ''Missing required fields'')), [])"
proof -
  obtain t s d where g: "get b p_text = Inr t" "get b p_sourceLang = Inr s" "get b p_targetLang = Inr d"
    using get_readable[OF assms(2)] by metis
  with assms(3) have "\<not> truthy t \<or> \<not> truthy s \<or> \<not> truthy d"
    by (simp add: has_def)
  with g assms(1) show ?thesis
    by (auto simp add: translate_def translate_request_def)
qed

lemma suggest_missing:
  assumes "truthy (GEMINI_API_KEY env)" "readable b"
    "\<not> (has b p_text \<and> has b p_language)"
  shows "suggest_reply env upstream b = (respond 400 (ErrorOnly (js ''Missing required fields'')), [])"
proof -
  obtain t s where g: "get b p_text = Inr t" "get b p_language = Inr s"
    using get_readable[OF assms(2)] by metis
  with assms(3) have "\<not> truthy t \<or> \<not> truthy s"
    by (simp add: has_def)
  with g assms(1) show ?thesis
    by (auto simp add: suggest_reply_def suggest_request_def)
qed

lemma synthesize_missing:
  assumes "truthy (TTS_API_KEY env)" "readable b"
    "\<not> (has b p_text \<and> has b p_langCode)"
  shows "synthesize_speech env upstream b = (respond 400 (ErrorOnly (js ''Missing text or language code'')), [])"
proof -
  obtain t s where g: "get b p_text = Inr t" "get b p_langCode = Inr s"
    using get_readable[OF assms(2)] by metis
  with assms(3) have "\<not> truthy t \<or> \<not> truthy s"
    by (simp add: has_def)
  with g assms(1) show ?thesis
    by (auto simp add: synthesize_speech_def synthesize_request_def)
qed

subsection \<open>The precondition checks\<close>

text \<open>
  C2: when the key of an endpoint is unset in the environment (\<^verbatim>\<open>GEMINI_API_KEY\<close> for
  \<^verbatim>\<open>/translate\<close> and \<^verbatim>\<open>/suggest-reply\<close>, \<^verbatim>\<open>TTS_API_KEY\<close> for \<^verbatim>\<open>/synthesize-speech\<close>),
  every request, whatever its body and whatever the upstream would answer, gets status
  500 with the endpoint's "not configured" message, and the list of outbound calls is
  empty.
\<close>

theorem unset_credential_500:
  "(env_GEMINI_API_KEY env = None
    \<longrightarrow> translate env upstream b
          = (respond 500 (ErrorOnly (js ''Gemini API key is not configured on the server.'')), [])
      \<and> suggest_reply env upstream b
          = (respond 500 (ErrorOnly (js ''Gemini API key is not configured on the server.'')), []))
 \<and> (env_TTS_API_KEY env = None
    \<longrightarrow> synthesize_speech env upstream b
          = (respond 500 (ErrorOnly (js ''TTS API key is not configured on the server.'')), []))"
  by (simp add: translate_def suggest_reply_def synthesize_speech_def GEMINI_API_KEY_def
      TTS_API_KEY_def load_key_def)

theorem unset_credential_500_witness:
  "translate no_keys (stub (succeeded (gemini_answer (js ''chat''))))
       (translate_body (js ''cat'') (js ''English'') (js ''French''))
     = (respond 500 (ErrorOnly (js ''Gemini API key is not configured on the server.'')), [])
   \<and> suggest_reply no_keys (stub (succeeded (gemini_answer (js ''chat''))))
       (translate_body (js ''cat'') (js ''English'') (js ''French''))
     = (respond 500 (ErrorOnly (js ''Gemini API key is not configured on the server.'')), [])
   \<and> synthesize_speech no_keys (stub (succeeded (gemini_answer (js ''chat''))))
       (translate_body (js ''cat'') (js ''English'') (js ''French''))
     = (respond 500 (ErrorOnly (js ''TTS API key is not configured on the server.'')), [])"
  using unset_credential_500 [of no_keys "stub (succeeded (gemini_answer (js ''chat'')))"
      "translate_body (js ''cat'') (js ''English'') (js ''French'')"]
  by (simp add: no_keys_def)

text \<open>
  C9: the key is checked before the fields. A request whose body lacks a required field
  and that arrives while the key of its endpoint is unset gets status 500 with the
  "not configured" message, not 400.
\<close>

theorem credential_check_first:
  "(env_GEMINI_API_KEY env = None \<and> readable b
      \<and> \<not> (has b p_text \<and> has b p_sourceLang \<and> has b p_targetLang)
    \<longrightarrow> status (fst (translate env upstream b)) = 500
      \<and> status (fst (translate env upstream b)) \<noteq> 400
      \<and> body (fst (translate env upstream b))
          = ErrorOnly (js ''Gemini API key is not configured on the server.''))
 \<and> (env_GEMINI_API_KEY env = None \<and> readable b \<and> \<not> (has b p_text \<and> has b p_language)
    \<longrightarrow> status (fst (suggest_reply env upstream b)) = 500
      \<and> status (fst (suggest_reply env upstream b)) \<noteq> 400
      \<and> body (fst (suggest_reply env upstream b))
          = ErrorOnly (js ''Gemini API key is not configured on the server.''))
 \<and> (env_TTS_API_KEY env = None \<and> readable b \<and> \<not> (has b p_text \<and> has b p_langCode)
    \<longrightarrow> status (fst (synthesize_speech env upstream b)) = 500
      \<and> status (fst (synthesize_speech env upstream b)) \<noteq> 400
      \<and> body (fst (synthesize_speech env upstream b))
          = ErrorOnly (js ''TTS API key is not configured on the server.''))"
  by (simp add: translate_def suggest_reply_def synthesize_speech_def GEMINI_API_KEY_def
      TTS_API_KEY_def load_key_def respond_def)

theorem credential_check_first_witness:
  "status (fst (translate no_keys (stub (Rejected TypeError)) (Obj [(js ''text'', Str (js ''cat''))]))) = 500
   \<and> status (fst (suggest_reply no_keys (stub (Rejected TypeError)) (Obj [(js ''text'', Str (js ''cat''))]))) = 500
   \<and> status (fst (synthesize_speech no_keys (stub (Rejected TypeError)) (Obj [(js ''text'', Str (js ''cat''))]))) = 500"
  using credential_check_first [of no_keys "Obj [(js ''text'', Str (js ''cat''))]" "stub (Rejected TypeError)"]
  by (simp add: no_keys_def readable_def has_def own_def js_def)

text \<open>
  C1: when the key of the endpoint is configured and the body is readable, a request in
  which a required field is absent or has a value that \<^verbatim>\<open>!\<close> rejects gets status 400
  with the fixed message of the endpoint (\<^verbatim>\<open>Missing required fields\<close>, or
  \<^verbatim>\<open>Missing text or language code\<close> for \<^verbatim>\<open>/synthesize-speech\<close>), and the list of
  outbound calls is empty. The key has to be configured: it is checked first.
\<close>

theorem missing_field_400:
  "(truthy (GEMINI_API_KEY env) \<and> readable b
      \<and> \<not> (has b p_text \<and> has b p_sourceLang \<and> has b p_targetLang)
    \<longrightarrow> translate env upstream b
          = (respond 400 (ErrorOnly (js ''Missing required fields'')), []))
 \<and> (truthy (GEMINI_API_KEY env) \<and> readable b \<and> \<not> (has b p_text \<and> has b p_language)
    \<longrightarrow> suggest_reply env upstream b
          = (respond 400 (ErrorOnly (js ''Missing required fields'')), []))
 \<and> (truthy (TTS_API_KEY env) \<and> readable b \<and> \<not> (has b p_text \<and> has b p_langCode)
    \<longrightarrow> synthesize_speech env upstream b
          = (respond 400 (ErrorOnly (js ''Missing text or language code'')), []))"
  using translate_missing suggest_missing synthesize_missing by blast

theorem missing_field_400_witness:
  "translate both_keys (stub (succeeded (gemini_answer (js ''chat''))))
       (Obj [(js ''text'', Str (js ''cat'')), (js ''sourceLang'', Str []), (js ''targetLang'', Str (js ''French''))])
     = (respond 400 (ErrorOnly (js ''Missing required fields'')), [])
   \<and> suggest_reply both_keys (stub (succeeded (gemini_answer (js ''Hi''))))
       (Obj [(js ''text'', Str (js ''hello''))])
     = (respond 400 (ErrorOnly (js ''Missing required fields'')), [])
   \<and> synthesize_speech both_keys (stub (succeeded (Obj [])))
       (Obj [(js ''langCode'', Str (js ''en-US'')), (js ''text'', Null)])
     = (respond 400 (ErrorOnly (js ''Missing text or language code'')), [])"
  using missing_field_400 [of both_keys "Obj [(js ''text'', Str (js ''cat'')), (js ''sourceLang'', Str []), (js ''targetLang'', Str (js ''French''))]"
      "stub (succeeded (gemini_answer (js ''chat'')))"]
    missing_field_400 [of both_keys "Obj [(js ''text'', Str (js ''hello''))]"
      "stub (succeeded (gemini_answer (js ''Hi'')))"]
    missing_field_400 [of both_keys "Obj [(js ''langCode'', Str (js ''en-US'')), (js ''text'', Null)]"
      "stub (succeeded (Obj []))"]
  by (simp add: both_keys_def GEMINI_API_KEY_def TTS_API_KEY_def load_key_def readable_def has_def own_def js_def trim_def isWhiteSpace_def)

text \<open>
  Without the key the status is not 400: the body \<^verbatim>\<open>{}\<close> lacks every field, and
  with no key in the environment \<^verbatim>\<open>/translate\<close> answers it with 500.
\<close>

theorem missing_field_counterexample:
  "readable (Obj []) \<and> \<not> has (Obj []) p_text
   \<and> translate no_keys (stub (Rejected TypeError)) (Obj [])
       = (respond 500 (ErrorOnly (js ''Gemini API key is not configured on the server.'')), [])
   \<and> status (fst (translate no_keys (stub (Rejected TypeError)) (Obj []))) \<noteq> 400"
  by (simp add: readable_def has_def own_def translate_def no_keys_def GEMINI_API_KEY_def load_key_def respond_def)

subsection \<open>Trimming and splitting\<close>

text \<open>
  \<open>trim\<close> cuts white space off both ends and nothing else: the string is the
  trimmed one between two runs of white space, and a trimmed string that is not empty
  neither starts nor ends with white space.
\<close>

lemma trim_decompose:
  "\<exists>pre post. s = pre @ trim s @ post
     \<and> (\<forall>c \<in> set pre. isWhiteSpace c) \<and> (\<forall>c \<in> set post. isWhiteSpace c)"
proof (intro exI conjI)
  let ?rest = "dropWhile isWhiteSpace s"
  have "rev ?rest = takeWhile isWhiteSpace (rev ?rest) @ dropWhile isWhiteSpace (rev ?rest)"
    by simp
  then have "?rest = trim s @ rev (takeWhile isWhiteSpace (rev ?rest))"
    unfolding trim_def by (metis rev_append rev_rev_ident)
  then show "s = takeWhile isWhiteSpace s @ trim s @ rev (takeWhile isWhiteSpace (rev ?rest))"
    by (metis takeWhile_dropWhile_id)
  show "\<forall>c \<in> set (takeWhile isWhiteSpace s). isWhiteSpace c"
    by (auto dest: set_takeWhileD)
  show "\<forall>c \<in> set (rev (takeWhile isWhiteSpace (rev ?rest))). isWhiteSpace c"
    by (auto dest: set_takeWhileD)
qed

lemma trim_ends:
  assumes "trim s \<noteq> []"
  shows "\<not> isWhiteSpace (hd (trim s)) \<and> \<not> isWhiteSpace (last (trim s))"
proof
  let ?rest = "dropWhile isWhiteSpace s"
  let ?d = "dropWhile isWhiteSpace (rev ?rest)"
  have d: "?d \<noteq> []" using assms by (simp add: trim_def)
  then have "\<not> isWhiteSpace (hd ?d)" by (rule hd_dropWhile)
  then show "\<not> isWhiteSpace (last (trim s))"
    using d by (simp add: trim_def last_rev)
  have r: "?rest \<noteq> []"
  proof
    assume a: "?rest = []"
    have "?d = []" unfolding a by simp
    with d show False by simp
  qed
  then have h: "\<not> isWhiteSpace (hd ?rest)" by (rule hd_dropWhile)
  have "last (rev ?rest) = hd ?rest" using r by (simp add: last_rev)
  moreover have "last ?d = last (rev ?rest)"
    using d by (metis last_appendR takeWhile_dropWhile_id)
  ultimately show "\<not> isWhiteSpace (hd (trim s))"
    using d h by (simp add: trim_def hd_rev)
qed

text \<open>
  \<open>split_lines\<close> cuts at every LF and loses nothing: no piece holds an LF, and
  the pieces joined with LF are the string.
\<close>

lemma split_lines_not_Nil: "split_lines s \<noteq> []"
  by (induction s) (auto split: list.splits)

lemma join_split_lines: "join_lines (split_lines s) = s"
proof (induction s)
  case Nil
  show ?case by simp
next
  case (Cons c cs)
  obtain l ls where sp: "split_lines cs = l # ls"
    using split_lines_not_Nil [of cs] by (cases "split_lines cs") auto
  show ?case
  proof (cases "c = 10")
    case True
    with Cons sp show ?thesis by simp
  next
    case False
    with Cons sp show ?thesis by (cases ls) auto
  qed
qed

lemma split_lines_no_LF: "l \<in> set (split_lines s) \<Longrightarrow> 10 \<notin> set l"
proof (induction s arbitrary: l)
  case Nil
  then show ?case by simp
next
  case (Cons c cs)
  then show ?case
    by (cases "split_lines cs") (auto split: if_splits)
qed

subsection \<open>Requests that reach the upstream\<close>

text \<open>
  Once the key is configured and the part before \<^verbatim>\<open>fetch\<close> has built the request
  \<open>rq\<close>, a handler makes this one call and answers from its outcome.
\<close>

lemma truthy_GEMINI: "truthy (GEMINI_API_KEY env) \<Longrightarrow> \<exists>k. GEMINI_API_KEY env = Str k \<and> k \<noteq> []"
  unfolding GEMINI_API_KEY_def by (rule truthy_load_key)

lemma path_candidates:
  "get data p_candidates = Inr (Arr (c # cs)) \<Longrightarrow>
   path data (Field p_candidates # Index0 # as) = path c as"
  by simp

lemma translate_Call:
  assumes "truthy (GEMINI_API_KEY env)" "translate_request (GEMINI_API_KEY env) b = Call rq"
  shows "translate env upstream b =
     (case translate_response (upstream rq) of
        Inl e \<Rightarrow> (translate_catch e, [rq]) | Inr r \<Rightarrow> (r, [rq]))"
  using assms by (simp add: translate_def)

lemma suggest_Call:
  assumes "truthy (GEMINI_API_KEY env)" "suggest_request (GEMINI_API_KEY env) b = Call rq"
  shows "suggest_reply env upstream b =
     (case suggest_response (upstream rq) of
        Inl e \<Rightarrow> (suggest_catch e, [rq]) | Inr r \<Rightarrow> (r, [rq]))"
  using assms by (simp add: suggest_reply_def)


text \<open>The example environment and bodies pass the checks.\<close>

lemma both_keys_GEMINI: "GEMINI_API_KEY both_keys = Str (js ''G-KEY'')"
  by (simp add: GEMINI_API_KEY_def both_keys_def load_key_def trim_def isWhiteSpace_def js_def)



lemma suggest_body_Call:
  "t \<noteq> [] \<Longrightarrow> l \<noteq> [] \<Longrightarrow> \<exists>rq. suggest_request (Str k) (suggest_body t l) = Call rq"
  by (simp add: suggest_request_def suggest_body_def suggest_prompt_def own_def
      gemini_call_Str js_def)


subsection \<open>/translate\<close>

text \<open>
  C3: for a request that passes the checks of \<^verbatim>\<open>/translate\<close> (key configured, the three
  fields non-empty strings) the handler makes one call, to the Gemini endpoint with the
  key appended, whose prompt is the multi-word template when \<open>text\<close> contains a
  space (code unit 32) and the single-word template when it does not, with
  \<open>text\<close>, \<open>sourceLang\<close> and \<open>targetLang\<close> in their places. The two templates
  differ in their first 24 code units, so the prompt is the multi-word one if and only
  if \<open>text\<close> contains a space.
\<close>

theorem translate_prompt_selection:
  assumes "GEMINI_API_KEY env = Str key" and "key \<noteq> []"
    and "get b p_text = Inr (Str text)"
    and "get b p_sourceLang = Inr (Str sourceLang)"
    and "get b p_targetLang = Inr (Str targetLang)"
    and "text \<noteq> []" and "sourceLang \<noteq> []" and "targetLang \<noteq> []"
  shows "\<exists>prompt.
      snd (translate env upstream b) = [post_json (gemini_endpoint @ key) (gemini_body prompt)]
    \<and> prompt =
        (if 32 \<in> set text
         then js ''Translate the following '' @ sourceLang @ js '' text to '' @ targetLang
              @ js ''. Provide ONLY the translated text. Text: '' @ quote @ text @ quote
         else js ''Translate the word '' @ quote @ text @ quote @ js '' from '' @ sourceLang
              @ js '' to '' @ targetLang @ js ''. Provide only the single translated word.'')
    \<and> (take 24 prompt = js ''Translate the following '' \<longleftrightarrow> 32 \<in> set text)"
proof (cases "32 \<in> set text")
  case True
  with assms show ?thesis
    by (simp add: translate_def translate_request_def translate_prompt_def multi_word_prompt_def
        gemini_call_Str split: sum.splits) (simp add: js_def)
next
  case False
  with assms show ?thesis
    by (simp add: translate_def translate_request_def translate_prompt_def single_word_prompt_def
        gemini_call_Str split: sum.splits) (simp add: js_def quote_def)
qed

theorem translate_prompt_selection_witness:
  "snd (translate both_keys (stub (succeeded (gemini_answer (js ''bonjour''))))
          (translate_body (js ''good morning'') (js ''English'') (js ''French'')))
     = [post_json (gemini_endpoint @ js ''G-KEY'')
          (gemini_body (js ''Translate the following English text to French. Provide ONLY the translated text. Text: ''
             @ quote @ js ''good morning'' @ quote))]
   \<and> snd (translate both_keys (stub (succeeded (gemini_answer (js ''chat''))))
          (translate_body (js ''cat'') (js ''English'') (js ''French'')))
     = [post_json (gemini_endpoint @ js ''G-KEY'')
          (gemini_body (js ''Translate the word '' @ quote @ js ''cat'' @ quote
             @ js '' from English to French. Provide only the single translated word.''))]"
  using translate_prompt_selection [of both_keys "js ''G-KEY''"
      "translate_body (js ''good morning'') (js ''English'') (js ''French'')"
      "js ''good morning''" "js ''English''" "js ''French''"
      "stub (succeeded (gemini_answer (js ''bonjour'')))"]
    translate_prompt_selection [of both_keys "js ''G-KEY''"
      "translate_body (js ''cat'') (js ''English'') (js ''French'')"
      "js ''cat''" "js ''English''" "js ''French''"
      "stub (succeeded (gemini_answer (js ''chat'')))"]
  by (simp add: both_keys_GEMINI translate_body_def own_def) (simp add: js_def)




lemma translate_candidate_without_text:
  assumes "truthy (GEMINI_API_KEY env)"
    and "translate_request (GEMINI_API_KEY env) b = Call rq"
    and "upstream rq = Resolved r" and "ok r" and "json r = Inr data"
    and "get data p_candidates = Inr (Arr (c # cs))"
    and "get c p_content = Inr Undefined"
  shows "translate env upstream b
     = (respond 500 (ErrorDetails (js ''Failed to translate text'') TypeError), [rq])"
  using assms by (simp add: translate_Call translate_response_def translate_catch_def)





subsection \<open>/suggest-reply\<close>

lemma suggest_response_text:
  assumes "ok r" "json r = Inr data"
    and "path data [Field p_candidates, Index0, Field p_content, Field p_parts, Index0,
                    Field p_text] = Inr (Str t)"
  shows "suggest_response (Resolved r) =
     Inr (respond 200 (Suggestions (filter (\<lambda>line. trim line \<noteq> []) (split_lines (trim t)))))"
  using assms by (simp add: suggest_response_def del: path.simps)

text \<open>
  C6: when the call of \<^verbatim>\<open>/suggest-reply\<close> resolves with \<^verbatim>\<open>ok\<close> and the text \<open>t\<close> of
  the first candidate is a string, the response has status 200 and the body
  \<^verbatim>\<open>{suggestions}\<close>, where the suggestions are the lines of \<open>t\<close> trimmed as a
  whole, split on LF, without the lines that are empty or white space only, in their
  order and however many they are. The text \<^verbatim>\<open>Hi\n\nThanks\nSee you\<close> gives
  \<^verbatim>\<open>Hi\<close>, \<^verbatim>\<open>Thanks\<close>, \<^verbatim>\<open>See you\<close>, and a text of four lines gives four.
\<close>

theorem suggest_success:
  assumes "truthy (GEMINI_API_KEY env)"
    and "suggest_request (GEMINI_API_KEY env) b = Call rq"
    and "upstream rq = Resolved r" and "ok r" and "json r = Inr data"
    and "path data [Field p_candidates, Index0, Field p_content, Field p_parts, Index0,
                    Field p_text] = Inr (Str t)"
  shows "suggest_reply env upstream b = (respond 200 (Suggestions (spec_suggestions (trim t))), [rq])"
  using assms by (simp add: suggest_Call suggest_response_text spec_suggestions_def del: path.simps)

theorem suggest_success_witness:
  "fst (suggest_reply both_keys
          (stub (succeeded (gemini_answer (js ''Hi'' @ [10, 10] @ js ''Thanks'' @ [10] @ js ''See you''))))
          (suggest_body (js ''hello'') (js ''English'')))
     = respond 200 (Suggestions [js ''Hi'', js ''Thanks'', js ''See you''])
   \<and> fst (suggest_reply both_keys
          (stub (succeeded (gemini_answer (js ''a'' @ [10] @ js ''b'' @ [10] @ js ''c'' @ [10] @ js ''d''))))
          (suggest_body (js ''hello'') (js ''English'')))
     = respond 200 (Suggestions [js ''a'', js ''b'', js ''c'', js ''d''])"
proof -
  obtain rq where c: "suggest_request (GEMINI_API_KEY both_keys)
       (suggest_body (js ''hello'') (js ''English'')) = Call rq"
    using suggest_body_Call [of "js ''hello''" "js ''English''" "js ''G-KEY''"]
    by (auto simp add: both_keys_GEMINI js_def)
  have k: "truthy (GEMINI_API_KEY both_keys)"
    by (simp add: both_keys_GEMINI js_def)
  have 1: "suggest_reply both_keys (stub (succeeded (gemini_answer t)))
          (suggest_body (js ''hello'') (js ''English''))
        = (respond 200 (Suggestions (spec_suggestions (trim t))), [rq])" for t
    by (rule suggest_success [OF k c, where r = "\<lparr>ok = True, statusText = js ''OK'',
          json = Inr (gemini_answer t)\<rparr>" and data = "gemini_answer t"])
       (simp_all add: stub_def succeeded_def gemini_answer_def own_def js_def)
  have 2: "spec_suggestions (trim (js ''Hi'' @ [10, 10] @ js ''Thanks'' @ [10] @ js ''See you''))
        = [js ''Hi'', js ''Thanks'', js ''See you'']"
    by (simp add: spec_suggestions_def js_def trim_def isWhiteSpace_def)
  have 3: "spec_suggestions (trim (js ''a'' @ [10] @ js ''b'' @ [10] @ js ''c'' @ [10] @ js ''d''))
        = [js ''a'', js ''b'', js ''c'', js ''d'']"
    by (simp add: spec_suggestions_def js_def trim_def isWhiteSpace_def)
  show ?thesis unfolding 1 2 3 by simp
qed

text \<open>
  The trimming of the whole text counts: for the text \<^verbatim>\<open> Hi\nThanks\<close>, with a space in
  front, the handler returns \<^verbatim>\<open>Hi\<close> and \<^verbatim>\<open>Thanks\<close>, while the lines of the text as
  it came start with the line \<^verbatim>\<open> Hi\<close>.
\<close>

theorem suggest_untrimmed_counterexample:
  "fst (suggest_reply both_keys
          (stub (succeeded (gemini_answer (js '' Hi'' @ [10] @ js ''Thanks''))))
          (suggest_body (js ''hello'') (js ''English'')))
     = respond 200 (Suggestions [js ''Hi'', js ''Thanks''])
   \<and> spec_suggestions (js '' Hi'' @ [10] @ js ''Thanks'') = [js '' Hi'', js ''Thanks'']
   \<and> fst (suggest_reply both_keys
          (stub (succeeded (gemini_answer (js '' Hi'' @ [10] @ js ''Thanks''))))
          (suggest_body (js ''hello'') (js ''English'')))
     \<noteq> respond 200 (Suggestions (spec_suggestions (js '' Hi'' @ [10] @ js ''Thanks'')))"
proof -
  have 1: "fst (suggest_reply both_keys
          (stub (succeeded (gemini_answer (js '' Hi'' @ [10] @ js ''Thanks''))))
          (suggest_body (js ''hello'') (js ''English'')))
     = respond 200 (Suggestions [js ''Hi'', js ''Thanks''])"
    by (simp add: suggest_reply_def both_keys_GEMINI suggest_request_def suggest_body_def
        own_def suggest_prompt_def gemini_call_Str stub_def succeeded_def suggest_response_def
        gemini_answer_def)
       (simp add: js_def trim_def isWhiteSpace_def)
  have 2: "spec_suggestions (js '' Hi'' @ [10] @ js ''Thanks'') = [js '' Hi'', js ''Thanks'']"
    by (simp add: spec_suggestions_def js_def trim_def isWhiteSpace_def)
  have 3: "[js ''Hi'', js ''Thanks''] \<noteq> [js '' Hi'', js ''Thanks'']"
    by (simp add: js_def)
  show ?thesis unfolding 1 2 using 3 by (simp add: respond_def)
qed

text \<open>
  C10: in \<^verbatim>\<open>/suggest-reply\<close> the upstream text is trimmed as a whole and cut at its LFs;
  the pieces joined again are the trimmed text, so no piece is trimmed by itself, and
  the suggestions are these pieces without the ones that are white space only. The
  text \<^verbatim>\<open>a\n  b  \nc\<close> gives \<^verbatim>\<open>a\<close>, \<^verbatim>\<open>  b  \<close> with its spaces, \<^verbatim>\<open>c\<close>.
\<close>

theorem suggestion_lines_verbatim:
  assumes "truthy (GEMINI_API_KEY env)"
    and "suggest_request (GEMINI_API_KEY env) b = Call rq"
    and "upstream rq = Resolved r" and "ok r" and "json r = Inr data"
    and "path data [Field p_candidates, Index0, Field p_content, Field p_parts, Index0,
                    Field p_text] = Inr (Str t)"
  shows "join_lines (split_lines (trim t)) = trim t
     \<and> (\<forall>l \<in> set (split_lines (trim t)). 10 \<notin> set l)
     \<and> fst (suggest_reply env upstream b)
         = respond 200 (Suggestions (filter (\<lambda>l. trim l \<noteq> []) (split_lines (trim t))))"
proof (intro conjI)
  show "join_lines (split_lines (trim t)) = trim t" by (rule join_split_lines)
  show "\<forall>l \<in> set (split_lines (trim t)). 10 \<notin> set l" by (simp add: split_lines_no_LF)
  show "fst (suggest_reply env upstream b)
         = respond 200 (Suggestions (filter (\<lambda>l. trim l \<noteq> []) (split_lines (trim t))))"
    using assms by (simp add: suggest_Call suggest_response_text del: path.simps)
qed

theorem suggestion_lines_verbatim_witness:
  "fst (suggest_reply both_keys
          (stub (succeeded (gemini_answer (js ''a'' @ [10] @ js ''  b  '' @ [10] @ js ''c''))))
          (suggest_body (js ''hello'') (js ''English'')))
     = respond 200 (Suggestions [js ''a'', js ''  b  '', js ''c''])
   \<and> [js ''a'', js ''  b  '', js ''c''] \<noteq> [js ''a'', js ''b'', js ''c'']"
proof -
  obtain rq where c: "suggest_request (GEMINI_API_KEY both_keys)
       (suggest_body (js ''hello'') (js ''English'')) = Call rq"
    using suggest_body_Call [of "js ''hello''" "js ''English''" "js ''G-KEY''"]
    by (auto simp add: both_keys_GEMINI js_def)
  have k: "truthy (GEMINI_API_KEY both_keys)"
    by (simp add: both_keys_GEMINI js_def)
  have p: "path (gemini_answer t) [Field p_candidates, Index0, Field p_content, Field p_parts,
             Index0, Field p_text] = Inr (Str t)" for t
    by (simp add: gemini_answer_def own_def js_def)
  have 1: "fst (suggest_reply both_keys
          (stub (succeeded (gemini_answer (js ''a'' @ [10] @ js ''  b  '' @ [10] @ js ''c''))))
          (suggest_body (js ''hello'') (js ''English'')))
      = respond 200 (Suggestions (filter (\<lambda>l. trim l \<noteq> [])
          (split_lines (trim (js ''a'' @ [10] @ js ''  b  '' @ [10] @ js ''c'')))))"
    using suggestion_lines_verbatim [OF k c _ _ _ p, where r = "\<lparr>ok = True, statusText = js ''OK'',
          json = Inr (gemini_answer (js ''a'' @ [10] @ js ''  b  '' @ [10] @ js ''c''))\<rparr>"
          and upstream = "stub (succeeded (gemini_answer (js ''a'' @ [10] @ js ''  b  '' @ [10] @ js ''c'')))"]
    by (simp add: stub_def succeeded_def)
  have 2: "filter (\<lambda>l. trim l \<noteq> [])
          (split_lines (trim (js ''a'' @ [10] @ js ''  b  '' @ [10] @ js ''c'')))
        = [js ''a'', js ''  b  '', js ''c'']"
    by (simp add: js_def trim_def isWhiteSpace_def)
  have 3: "[js ''a'', js ''  b  '', js ''c''] \<noteq> [js ''a'', js ''b'', js ''c'']"
    by (simp add: js_def)
  show ?thesis unfolding 1 2 using 3 by simp
qed

text \<open>
  C7: a request to \<^verbatim>\<open>/suggest-reply\<close> that passes the checks (key configured, both fields
  present) gets status 200 or else status 500 with the body
  \<^verbatim>\<open>{error: 'Failed to generate suggestions'}\<close> and nothing more. In particular a call
  that resolves with a status that is not \<^verbatim>\<open>ok\<close> gives this body whatever the upstream
  sent, and so does a payload without a string at \<^verbatim>\<open>candidates[0].content.parts[0].text\<close>.
\<close>

theorem suggest_failure_generic:
  assumes "truthy (GEMINI_API_KEY env)" and "has b p_text" and "has b p_language"
  shows "(status (fst (suggest_reply env upstream b)) = 200
          \<or> fst (suggest_reply env upstream b)
              = respond 500 (ErrorOnly (js ''Failed to generate suggestions'')))
    \<and> (suggest_request (GEMINI_API_KEY env) b = Call rq \<and> upstream rq = Resolved r \<and> \<not> ok r
       \<longrightarrow> suggest_reply env upstream b
            = (respond 500 (ErrorOnly (js ''Failed to generate suggestions'')), [rq]))
    \<and> (suggest_request (GEMINI_API_KEY env) b = Call rq \<and> upstream rq = Resolved r \<and> ok r
        \<and> json r = Inr data
        \<and> (\<forall>t. path data [Field p_candidates, Index0, Field p_content, Field p_parts, Index0,
                           Field p_text] \<noteq> Inr (Str t))
       \<longrightarrow> suggest_reply env upstream b
            = (respond 500 (ErrorOnly (js ''Failed to generate suggestions'')), [rq]))"
proof (intro conjI impI)
  obtain t l where g: "get b p_text = Inr t" "truthy t" "get b p_language = Inr l" "truthy l"
    using assms(2,3) by (auto simp: has_iff)
  have "suggest_request (GEMINI_API_KEY env) b \<noteq> Replied x" for x
    using g by (simp add: suggest_request_def gemini_call_def split: sum.splits)
  then show "status (fst (suggest_reply env upstream b)) = 200
          \<or> fst (suggest_reply env upstream b)
              = respond 500 (ErrorOnly (js ''Failed to generate suggestions''))"
    using assms(1)
    by (cases "suggest_request (GEMINI_API_KEY env) b")
       (auto simp add: suggest_reply_def suggest_catch_def suggest_response_def respond_def Let_def
          split: sum.splits fetch_result.splits if_splits)
next
  assume "suggest_request (GEMINI_API_KEY env) b = Call rq \<and> upstream rq = Resolved r \<and> \<not> ok r"
  then show "suggest_reply env upstream b
            = (respond 500 (ErrorOnly (js ''Failed to generate suggestions'')), [rq])"
    using assms(1) by (simp add: suggest_Call suggest_response_def suggest_catch_def)
next
  assume a: "suggest_request (GEMINI_API_KEY env) b = Call rq \<and> upstream rq = Resolved r \<and> ok r
        \<and> json r = Inr data
        \<and> (\<forall>t. path data [Field p_candidates, Index0, Field p_content, Field p_parts, Index0,
                           Field p_text] \<noteq> Inr (Str t))"
  have no_trim: "trim_of v = Inl TypeError" if "\<forall>t. v \<noteq> Str t" for v
    using that by (cases v) simp_all
  from a show "suggest_reply env upstream b
            = (respond 500 (ErrorOnly (js ''Failed to generate suggestions'')), [rq])"
    using assms(1) no_trim
    by (auto simp add: suggest_Call suggest_response_def suggest_catch_def
        simp del: path.simps split: sum.splits)
qed

theorem suggest_failure_generic_witness:
  "suggest_reply both_keys (stub (failed (js ''Too Many Requests'') quota_exceeded))
       (suggest_body (js ''hello'') (js ''English''))
     = (respond 500 (ErrorOnly (js ''Failed to generate suggestions'')),
        [post_json (gemini_endpoint @ js ''G-KEY'')
           (gemini_body (js ''I received a message in English that says: '' @ quote @ js ''hello'' @ quote
              @ js ''. Suggest three short, common, and natural-sounding replies in English. Provide ONLY the three replies, each on a new line. Do not add numbers, bullets, or any extra text.''))])
   \<and> fst (suggest_reply both_keys (stub (succeeded (Obj [(js ''candidates'', Arr [])])))
       (suggest_body (js ''hello'') (js ''English'')))
     = respond 500 (ErrorOnly (js ''Failed to generate suggestions''))"
proof -
  let ?rq = "post_json (gemini_endpoint @ js ''G-KEY'')
           (gemini_body (js ''I received a message in English that says: '' @ quote @ js ''hello'' @ quote
              @ js ''. Suggest three short, common, and natural-sounding replies in English. Provide ONLY the three replies, each on a new line. Do not add numbers, bullets, or any extra text.''))"
  have c: "suggest_request (GEMINI_API_KEY both_keys)
       (suggest_body (js ''hello'') (js ''English'')) = Call ?rq"
    by (simp add: both_keys_GEMINI suggest_request_def suggest_body_def suggest_prompt_def own_def
      gemini_call_Str) (simp add: js_def)
  have k: "truthy (GEMINI_API_KEY both_keys)"
    by (simp add: both_keys_GEMINI js_def)
  have h: "has (suggest_body (js ''hello'') (js ''English'')) p_text"
      "has (suggest_body (js ''hello'') (js ''English'')) p_language"
    by (simp_all add: has_def suggest_body_def own_def js_def)
  show ?thesis
    using suggest_failure_generic [OF k h,
        of "stub (failed (js ''Too Many Requests'') quota_exceeded)" ?rq
        "\<lparr>ok = False, statusText = js ''Too Many Requests'', json = Inr quota_exceeded\<rparr>"]
      suggest_failure_generic [OF k h,
        of "stub (succeeded (Obj [(js ''candidates'', Arr [])]))" ?rq
        "\<lparr>ok = True, statusText = js ''OK'', json = Inr (Obj [(js ''candidates'', Arr [])])\<rparr>"
        "Obj [(js ''candidates'', Arr [])]"]
    by (simp add: c stub_def failed_def succeeded_def own_def)
qed

subsection \<open>/synthesize-speech\<close>






end
